theory Spec2Isabelle
  imports Main "HOL-Library.Char_ord" "HOL-Library.List_Lexorder"
begin

section \<open>Shared Go vocabulary\<close>

text \<open>
  A Go string is modelled by the sequence of Unicode code points that \<open>range\<close> reads
  from it (the strings are well-formed UTF-8): a \<open>rune\<close> is a natural number.  All byte
  positions the code computes (\<open>strings.Index\<close>, \<open>IndexByte\<close>, \<open>raw[0]\<close>) are positions
  of ASCII characters, which UTF-8 never uses inside a longer encoding, so slicing at them
  is slicing the code-point sequence.  \<open>str\<close> turns a literal of the source into such a
  string.  A pointer that may be nil is an \<^typ>\<open>'a option\<close>.  Objects that are mutated
  through a pointer (a logger, the event store) live in an explicit store indexed by a
  reference.
\<close>

type_synonym rune = nat
type_synonym gostring = "rune list"
type_synonym ref = nat

definition str :: "string \<Rightarrow> gostring" where
  "str s = map of_char s"

definition rune :: "char \<Rightarrow> rune" where
  "rune c = of_char c"

text \<open>Arguments of a variadic \<open>...interface{}\<close> parameter.\<close>

datatype go_value = GoString gostring | GoInt int | GoBool bool

text \<open>The Go \<open>error\<close> values the modelled code distinguishes: the sentinel
  \<open>storage.ErrPluginNotFound\<close> (compared by identity), any other error with its text, and
  the two activation errors of the spec's taxonomy (section 7).\<close>

datatype error = ErrPluginNotFound | Err gostring | ActivationError gostring | RecoveredFault gostring

text \<open>A Go map read \<open>v, ok := m[k]\<close>: the zero value and \<open>false\<close> for a missing key.\<close>

definition map_index :: "(gostring \<rightharpoonup> gostring) \<Rightarrow> gostring \<Rightarrow> gostring \<times> bool" where
  "map_index m k = (case m k of None \<Rightarrow> ([], False) | Some v \<Rightarrow> (v, True))"

section \<open>internal/config: the Config accessor (config.go)\<close>

record Config =
  enabledPlugins :: "gostring list"
  pluginSettings :: "gostring \<rightharpoonup> (gostring \<rightharpoonup> gostring)"

text \<open>\<open>func (c *Config) GetPluginSetting(pluginName, key string) (string, bool)\<close>\<close>

definition Config_GetPluginSetting :: "Config \<Rightarrow> gostring \<Rightarrow> gostring \<Rightarrow> gostring \<times> bool" where
  "Config_GetPluginSetting c pluginName key =
     (case pluginSettings c pluginName of
        None \<Rightarrow> ([], False)
      | Some settings \<Rightarrow> map_index settings key)"

section \<open>internal/config: strings and unicode helpers of the Go library\<close>

text \<open>\<open>unicode.IsSpace\<close>: the Latin-1 spaces \<open>\t \n \v \f \r\<close>, space, U+0085, U+00A0, and
  the other code points with the White_Space property.\<close>

definition IsSpace :: "rune \<Rightarrow> bool" where
  "IsSpace r =
     ((9 \<le> r \<and> r \<le> 13) \<or> r = 32 \<or> r = 133 \<or> r = 160 \<or> r = 5760 \<or>
      (8192 \<le> r \<and> r \<le> 8202) \<or> r = 8232 \<or> r = 8233 \<or> r = 8239 \<or> r = 8287 \<or> r = 12288)"

text \<open>\<open>strings.TrimSpace\<close>: all leading and trailing white space removed.\<close>

definition TrimSpace :: "gostring \<Rightarrow> gostring" where
  "TrimSpace s = rev (dropWhile IsSpace (rev (dropWhile IsSpace s)))"

definition HasPrefix :: "gostring \<Rightarrow> gostring \<Rightarrow> bool" where
  "HasPrefix s p = (take (length p) s = p)"

text \<open>\<open>strings.Index(s, substr)\<close>: the position of the first occurrence, or -1.\<close>

fun Index :: "gostring \<Rightarrow> gostring \<Rightarrow> int" where
  "Index [] sub = (if sub = [] then 0 else -1)"
| "Index (c # s) sub =
     (if HasPrefix (c # s) sub then 0
      else (let i = Index s sub in if i = -1 then -1 else i + 1))"

text \<open>\<open>strings.IndexByte(s, c)\<close> for an ASCII \<open>c\<close>.\<close>

definition IndexByte :: "gostring \<Rightarrow> rune \<Rightarrow> int" where
  "IndexByte s c = Index s [c]"

text \<open>\<open>strings.Split(s, sep)\<close> for a one-character separator: the pieces between the
  separators, one more than there are separators.\<close>

fun Split :: "gostring \<Rightarrow> rune \<Rightarrow> gostring list" where
  "Split [] sep = [[]]"
| "Split (c # s) sep =
     (if c = sep then [] # Split s sep
      else (case Split s sep of p # ps \<Rightarrow> (c # p) # ps | [] \<Rightarrow> [[c]]))"

text \<open>\<open>strings.ToLower\<close> maps every code point through \<open>unicode.ToLower\<close>; the tables of
  package \<open>unicode\<close> (\<open>ToLower\<close>, \<open>IsLetter\<close>, \<open>IsDigit\<close>) are parameters of the model.\<close>

record unicode =
  unicode_ToLower :: "rune \<Rightarrow> rune"
  IsLetter :: "rune \<Rightarrow> bool"
  IsDigit :: "rune \<Rightarrow> bool"

definition ToLower :: "unicode \<Rightarrow> gostring \<Rightarrow> gostring" where
  "ToLower u s = map (unicode_ToLower u) s"

text \<open>The number of bytes of the UTF-8 encoding of a string.\<close>

definition RuneLen :: "rune \<Rightarrow> nat" where
  "RuneLen r = (if r < 128 then 1 else if r < 2048 then 2 else if r < 65536 then 3 else 4)"

definition len :: "gostring \<Rightarrow> nat" where
  "len s = sum_list (map RuneLen s)"

section \<open>internal/config: applying parsed values (config.go)\<close>


definition PluginSettingPrefix :: gostring where
  "PluginSettingPrefix = str ''PLUGIN_''"


text \<open>Lines 480-494 of \<open>applyValues\<close>: the plugin name and the setting key a key of the
  parsed file stands for; \<open>None\<close> where the loop \<open>continue\<close>s.\<close>

definition plugin_setting_key :: "unicode \<Rightarrow> gostring \<Rightarrow> (gostring \<times> gostring) option" where
  "plugin_setting_key u key =
     (if \<not> HasPrefix key PluginSettingPrefix then None
      else
        (let remainder = drop (length PluginSettingPrefix) key;
             underscoreIdx = IndexByte remainder (rune CHR ''_'')
         in if underscoreIdx = -1 \<or> underscoreIdx = 0 \<or> underscoreIdx = int (length remainder) - 1
            then None
            else Some (ToLower u (take (nat underscoreIdx) remainder),
                       drop (nat underscoreIdx + 1) remainder)))"




section \<open>internal/config: the .env parser (parser.go)\<close>

definition isValidKey :: "unicode \<Rightarrow> gostring \<Rightarrow> bool" where
  "isValidKey u key = list_all (\<lambda>r. IsLetter u r \<or> IsDigit u r \<or> r = rune CHR ''_'') key"

text \<open>The \<open>switch next\<close> of \<open>parseQuotedValue\<close>: what an escape sequence stands for.\<close>

definition unescape :: "rune \<Rightarrow> gostring" where
  "unescape next =
     (if next = rune CHR ''n'' then [10]
      else if next = rune CHR ''t'' then [9]
      else if next = rune CHR ''r'' then [13]
      else if next = 92 then [92]
      else if next = 34 then [34]
      else if next = 39 then [39]
      else [92, next])"

fun parseQuotedValue :: "gostring \<Rightarrow> rune \<Rightarrow> gostring" where
  "parseQuotedValue [] quote = []"
| "parseQuotedValue [c] quote = [c]"
| "parseQuotedValue (c # next # s) quote =
     (if c = 92 then unescape next @ parseQuotedValue s quote
      else c # parseQuotedValue (next # s) quote)"

definition parseValue :: "gostring \<Rightarrow> gostring" where
  "parseValue raw0 =
     (let raw1 = TrimSpace raw0 in
      if len raw1 = 0 then []
      else
        (let raw =
               (if hd raw1 \<noteq> 34 \<and> hd raw1 \<noteq> 39 then
                  (let idx = Index raw1 (str '' #'') in
                   if idx \<noteq> -1 then TrimSpace (take (nat idx) raw1) else raw1)
                else raw1)
         in if len raw \<ge> 2 then
              (let first = hd raw; lst = last raw in
               if first = 34 \<and> lst = 34 then parseQuotedValue (butlast (tl raw)) 34
               else if first = 39 \<and> lst = 39 then butlast (tl raw)
               else raw)
            else raw))"

text \<open>\<open>parseLine\<close> returns \<open>(key, value, ok)\<close>; \<open>None\<close> stands for \<open>("", "", false)\<close>.\<close>

definition parseLine :: "unicode \<Rightarrow> gostring \<Rightarrow> (gostring \<times> gostring) option" where
  "parseLine u line0 =
     (let line = TrimSpace line0 in
      if line = [] \<or> HasPrefix line (str ''#'') then None
      else
        (let eqIndex = Index line (str ''='') in
         if eqIndex = -1 then None
         else
           (let key = TrimSpace (take (nat eqIndex) line) in
            if key = [] \<or> \<not> isValidKey u key then None
            else Some (key, parseValue (drop (nat eqIndex + 1) line)))))"

text \<open>\<open>bufio.Scanner\<close> with the default split function \<open>ScanLines\<close>: the text is cut at
  every newline, a last piece without newline is a line when it is not empty, and one
  trailing carriage return is dropped from each line.  The scanner's buffer holds
  \<open>MaxScanTokenSize\<close> = 64 * 1024 bytes: a line of that many bytes or more ends the scan
  with \<open>ErrTooLong\<close>.\<close>

definition dropCR :: "gostring \<Rightarrow> gostring" where
  "dropCR data = (if data \<noteq> [] \<and> last data = 13 then butlast data else data)"

definition raw_lines :: "gostring \<Rightarrow> gostring list" where
  "raw_lines content =
     (let pieces = Split content 10
      in if last pieces = [] then butlast pieces else pieces)"

definition MaxScanTokenSize :: nat where
  "MaxScanTokenSize = 64 * 1024"

datatype scan_error = ErrTooLong

text \<open>\<open>func ParseEnvFile(r io.Reader) (map[string]string, error)\<close>, on the text the reader
  delivers.\<close>

definition ParseEnvFile :: "unicode \<Rightarrow> gostring \<Rightarrow> scan_error + (gostring \<rightharpoonup> gostring)" where
  "ParseEnvFile u content =
     (if list_ex (\<lambda>l. len l \<ge> MaxScanTokenSize) (raw_lines content) then Inl ErrTooLong
      else Inr (fold (\<lambda>line result.
                        case parseLine u (dropCR line) of
                          None \<Rightarrow> result
                        | Some (key, value) \<Rightarrow> result(key \<mapsto> value))
                  (raw_lines content) Map.empty))"

section \<open>internal/config: the .env writer (writer.go)\<close>

text \<open>\<open>envTemplate\<close>: key and comment of every entry.\<close>

definition envTemplate :: "(gostring \<times> gostring) list" where
  "envTemplate =
     [([], str ''# PodmanView Configuration''),
      ([], str ''# Generated automatically on first run''),
      ([], []),
      ([], str ''# ===================''),
      ([], str ''# Server Settings''),
      ([], str ''# ===================''),
      ([], []),
      (str ''PODMANVIEW_ADDR'', str ''# Server address (host:port)''),
      ([], []),
      ([], str ''# ===================''),
      ([], str ''# Security Settings''),
      ([], str ''# ===================''),
      ([], []),
      (str ''PODMANVIEW_JWT_SECRET'', str ''# JWT secret key (auto-generated, do not share!)''),
      (str ''PODMANVIEW_JWT_EXPIRATION'', str ''# JWT token expiration in seconds (default: 24 hours)''),
      (str ''PODMANVIEW_NO_AUTH'', str ''# Disable authentication (true/false, for development only!)''),
      ([], []),
      ([], str ''# ===================''),
      ([], str ''# Podman Settings''),
      ([], str ''# ===================''),
      ([], []),
      (str ''PODMANVIEW_SOCKET'', str ''# Podman socket path (leave empty for auto-detection)'')]"

definition needsQuoting :: "gostring \<Rightarrow> bool" where
  "needsQuoting v =
     (if v = [] then False
      else list_ex (\<lambda>r. r = 32 \<or> r = 9 \<or> r = 10 \<or> r = 13 \<or> r = 34 \<or> r = 39 \<or> r = 35 \<or> r = 92) v)"

text \<open>The \<open>switch r\<close> of \<open>escapeValue\<close>.\<close>

definition escape :: "rune \<Rightarrow> gostring" where
  "escape r =
     (if r = 34 then [92, 34]
      else if r = 92 then [92, 92]
      else if r = 10 then [92, rune CHR ''n'']
      else if r = 9 then [92, rune CHR ''t'']
      else if r = 13 then [92, rune CHR ''r'']
      else [r])"

definition escapeValue :: "gostring \<Rightarrow> gostring" where
  "escapeValue v = concat (map escape v)"

definition formatEnvLine :: "gostring \<Rightarrow> gostring \<Rightarrow> gostring" where
  "formatEnvLine key v =
     (if needsQuoting v then key @ str ''='' @ [34] @ escapeValue v @ [34]
      else key @ str ''='' @ v)"

text \<open>\<open>values[key]\<close> of a Go map given by its entries: the empty string for a missing key.\<close>

definition map_get :: "(gostring \<times> gostring) list \<Rightarrow> gostring \<Rightarrow> gostring" where
  "map_get values key = (case map_of values key of None \<Rightarrow> [] | Some v \<Rightarrow> v)"

text \<open>\<open>findExtraKeys\<close>: the keys that are not in the template, sorted (\<open>sort.Strings\<close>).\<close>

definition findExtraKeys :: "(gostring \<times> gostring) list \<Rightarrow> gostring list" where
  "findExtraKeys values =
     sort (filter (\<lambda>key. key \<notin> set (filter (\<lambda>k. k \<noteq> []) (map fst envTemplate))) (map fst values))"

text \<open>The lines \<open>WriteEnvFile\<close> writes, each followed by a newline.\<close>

definition template_lines :: "(gostring \<times> gostring) list \<Rightarrow> gostring list" where
  "template_lines values =
     concat (map (\<lambda>(Key, Comment).
                    if Key = [] then [Comment]
                    else (if Comment \<noteq> [] then [Comment] else []) @ [formatEnvLine Key (map_get values Key)])
               envTemplate)"

definition extra_lines :: "(gostring \<times> gostring) list \<Rightarrow> gostring list" where
  "extra_lines values =
     (let extraKeys = findExtraKeys values
      in if length extraKeys > 0 then
           [[], str ''# ==================='', str ''# Custom Settings'', str ''# ==================='', []]
           @ map (\<lambda>key. formatEnvLine key (map_get values key)) extraKeys
         else [])"

text \<open>\<open>func WriteEnvFile(filePath string, values map[string]string) error\<close>: the content
  that \<open>atomicWrite\<close> puts into the file.\<close>

definition WriteEnvFile :: "(gostring \<times> gostring) list \<Rightarrow> gostring" where
  "WriteEnvFile values =
     concat (map (\<lambda>l. l @ [10]) (template_lines values @ extra_lines values))"

section \<open>internal/plugins: the capability shim (plugin.go)\<close>

text \<open>What the event store receives from one \<open>EventStore.Add\<close> call.\<close>

record Event =
  ev_type :: gostring
  ev_username :: gostring
  ev_ip :: gostring
  ev_success :: bool
  ev_details :: gostring

text \<open>
  The objects behind the pointers: for every logger the \<open>Printf\<close> calls it has received
  (format string and arguments, in order), for every event store the events added.
\<close>

record world =
  printed :: "ref \<Rightarrow> (gostring \<times> go_value list) list"
  events :: "ref \<Rightarrow> Event list"

text \<open>\<open>(*log.Logger).Printf(format, v...)\<close>: the logger receives the call.\<close>

definition Printf :: "ref \<Rightarrow> gostring \<Rightarrow> go_value list \<Rightarrow> world \<Rightarrow> world" where
  "Printf lg format v w = w\<lparr>printed := (printed w)(lg := printed w lg @ [(format, v)])\<rparr>"

text \<open>Modelled from the spec: the event store's \<open>Add\<close> is declared in internal/events,
  outside the given files; the Event Sink's
  \<open>Add(eventType, actor, source string, success bool, details string)\<close> records the event.\<close>

definition EventStore_Add :: "ref \<Rightarrow> Event \<Rightarrow> world \<Rightarrow> world" where
  "EventStore_Add es ev w = w\<lparr>events := (events w)(es := events w es @ [ev])\<rparr>"

text \<open>\<open>PluginDependencies\<close>.  The \<open>Storage\<close> field is the one internal/plugins/led/led.go
  reads through \<open>p.Deps().Storage\<close>; its type is the \<open>storage.Storage\<close> interface, kept
  abstract as \<^typ>\<open>'s\<close>.\<close>

record 's PluginDependencies =
  PodmanClient :: "ref option"
  Config :: "Config option"
  EventStore :: "ref option"
  Logger :: "ref option"
  Storage :: "'s option"

record 's BasePlugin =
  name :: gostring
  description :: gostring
  version :: gostring
  deps :: "'s PluginDependencies option"
  logger :: "ref option"

definition NewBasePlugin :: "gostring \<Rightarrow> gostring \<Rightarrow> gostring \<Rightarrow> 's BasePlugin" where
  "NewBasePlugin n d v = \<lparr>name = n, description = d, version = v, deps = None, logger = None\<rparr>"

definition SetDependencies :: "'s BasePlugin \<Rightarrow> 's PluginDependencies \<Rightarrow> 's BasePlugin" where
  "SetDependencies p d = p\<lparr>deps := Some d, logger := Logger d\<rparr>"

text \<open>\<open>LogInfo\<close> and \<open>LogError\<close>: the prefix is concatenated in front of the caller's format
  string and the result is handed to the logger's \<open>Printf\<close>; nothing happens without a logger.\<close>

definition LogInfo :: "'s BasePlugin \<Rightarrow> gostring \<Rightarrow> go_value list \<Rightarrow> world \<Rightarrow> world" where
  "LogInfo p format v w =
     (case logger p of
        None \<Rightarrow> w
      | Some lg \<Rightarrow> Printf lg (str ''['' @ name p @ str ''] '' @ format) v w)"

definition LogError :: "'s BasePlugin \<Rightarrow> gostring \<Rightarrow> go_value list \<Rightarrow> world \<Rightarrow> world" where
  "LogError p format v w =
     (case logger p of
        None \<Rightarrow> w
      | Some lg \<Rightarrow> Printf lg (str ''['' @ name p @ str ''] ERROR: '' @ format) v w)"

text \<open>What the logger writes for a \<open>Printf\<close> call is \<open>fmt.Sprintf(format, v...)\<close> (after the
  logger's own time stamp).  \<open>fmt\<close> copies the format's text up to the first \<open>%\<close> and
  processes the rest, verbs and arguments, from there; nothing of the text copied is
  carried into that processing.  The processing of verbs is the Go library's and is the
  parameter \<open>verbs\<close>.\<close>

definition Sprintf ::
  "(gostring \<Rightarrow> go_value list \<Rightarrow> gostring) \<Rightarrow> gostring \<Rightarrow> go_value list \<Rightarrow> gostring" where
  "Sprintf verbs format a =
     takeWhile (\<lambda>c. c \<noteq> rune CHR ''%'') format @
     verbs (dropWhile (\<lambda>c. c \<noteq> rune CHR ''%'') format) a"

definition written ::
  "(gostring \<Rightarrow> go_value list \<Rightarrow> gostring) \<Rightarrow> world \<Rightarrow> ref \<Rightarrow> gostring list" where
  "written verbs w lg = map (\<lambda>(format, a). Sprintf verbs format a) (printed w lg)"

text \<open>\<open>validEventTypeRegex = regexp.MustCompile(`^[a-zA-Z0-9_.]+$`)\<close>: without the
  multi-line flag \<open>^\<close> and \<open>$\<close> match only at the two ends of the text, so \<open>MatchString\<close>
  holds exactly for a non-empty text all of whose characters are in the class.\<close>

definition event_type_class :: "rune \<Rightarrow> bool" where
  "event_type_class c =
     ((rune CHR ''a'' \<le> c \<and> c \<le> rune CHR ''z'') \<or> (rune CHR ''A'' \<le> c \<and> c \<le> rune CHR ''Z'') \<or>
      (rune CHR ''0'' \<le> c \<and> c \<le> rune CHR ''9'') \<or> c = rune CHR ''_'' \<or> c = rune CHR ''.'')"

definition validEventTypeRegex_MatchString :: "gostring \<Rightarrow> bool" where
  "validEventTypeRegex_MatchString s = (s \<noteq> [] \<and> list_all event_type_class s)"

definition AddEvent :: "'s BasePlugin \<Rightarrow> gostring \<Rightarrow> gostring \<Rightarrow> world \<Rightarrow> world" where
  "AddEvent p eventType message w =
     (case deps p of
        None \<Rightarrow> w
      | Some d \<Rightarrow>
          (case EventStore d of
             None \<Rightarrow> w
           | Some es \<Rightarrow>
               if \<not> validEventTypeRegex_MatchString eventType then
                 (case logger p of
                    None \<Rightarrow> w
                  | Some lg \<Rightarrow>
                      Printf lg (str ''[%s] WARNING: Invalid event type rejected: %q'')
                        [GoString (name p), GoString eventType] w)
               else
                 EventStore_Add es
                   \<lparr>ev_type = str ''plugin.'' @ name p @ str ''.'' @ eventType,
                    ev_username = str ''plugin'', ev_ip = [], ev_success = True,
                    ev_details = message\<rparr> w))"

definition GetPluginSetting :: "'s BasePlugin \<Rightarrow> gostring \<Rightarrow> gostring \<times> bool" where
  "GetPluginSetting p key =
     (case deps p of
        None \<Rightarrow> ([], False)
      | Some d \<Rightarrow>
          (case Config d of
             None \<Rightarrow> ([], False)
           | Some c \<Rightarrow> Config_GetPluginSetting c (name p) key))"

definition GetPluginSettingOrDefault :: "'s BasePlugin \<Rightarrow> gostring \<Rightarrow> gostring \<Rightarrow> gostring" where
  "GetPluginSettingOrDefault p key defaultValue =
     (case GetPluginSetting p key of
        (val, ok) \<Rightarrow> if ok then val else defaultValue)"

section \<open>internal/api: the Toggle handler (plugins.go)\<close>

text \<open>Modelled from the spec: \<open>storage.PluginConfig\<close> is declared in internal/storage,
  outside the given files; these are the two fields \<open>Toggle\<close> reads and writes (the
  persisted enabled flag of a unit name).\<close>

record PluginConfig =
  Enabled :: bool
  Name :: gostring

text \<open>
  \<open>h.server.storage\<close> is a value of the interface \<open>storage.Storage\<close> and
  \<open>h.server.pluginRegistry\<close> a pointer to the plugin registry; neither implementation is
  among the given files.  Their methods are parameters of the model: \<^typ>\<open>'s\<close> is the state
  of the store, \<^typ>\<open>'r\<close> the state of the registry.  A method that returns
  \<open>(value, error)\<close> returns a sum (\<open>Inl\<close> the error); \<open>SetPluginConfig\<close> returns the
  store it leaves behind and its error.  The registry's methods run with the store as it
  is when they are called.
\<close>

record ('s, 'r) methods =
  GetPluginConfig :: "'s \<Rightarrow> gostring \<Rightarrow> error + PluginConfig"
  SetPluginConfig :: "'s \<Rightarrow> gostring \<Rightarrow> PluginConfig \<Rightarrow> 's \<times> error option"
  IsPluginEnabled :: "'s \<Rightarrow> gostring \<Rightarrow> bool \<times> error option"
  EnablePlugin :: "'s \<Rightarrow> 'r \<Rightarrow> gostring \<Rightarrow> 'r \<times> error option"
  DisablePlugin :: "'s \<Rightarrow> 'r \<Rightarrow> gostring \<Rightarrow> 'r \<times> error option"

record ('s, 'r) Server =
  storage :: "'s option"
  pluginRegistry :: "'r option"

text \<open>The JSON object of a successful Toggle, and what the handler writes: either
  \<open>http.Error(w, text + err.Error(), status)\<close> (the error kept as a value) or
  \<open>writeJSON(w, status, response)\<close>.\<close>

record toggle_response =
  success :: bool
  plugin :: gostring
  enabled :: bool
  restart_required :: bool

datatype http_response =
    HttpError nat gostring "error option"
  | WriteJSON nat toggle_response

text \<open>Lines 130-142: the existing config with its flag overwritten, a fresh config when
  the store reports \<open>ErrPluginNotFound\<close>, the error of any other failed lookup.\<close>

definition Toggle_config ::
  "('s, 'r) methods \<Rightarrow> 's \<Rightarrow> gostring \<Rightarrow> bool \<Rightarrow> error + PluginConfig" where
  "Toggle_config m st pluginName req_Enabled =
     (case GetPluginConfig m st pluginName of
        Inl err \<Rightarrow>
          if err = ErrPluginNotFound then Inr \<lparr>Enabled = req_Enabled, Name = pluginName\<rparr>
          else Inl err
      | Inr pluginConfig \<Rightarrow> Inr (pluginConfig\<lparr>Enabled := req_Enabled\<rparr>))"

text \<open>\<open>func (h *PluginHandler) Toggle(w, r)\<close>.  \<open>body\<close> is what
  \<open>json.NewDecoder(r.Body).Decode(&req)\<close> yields: \<open>None\<close> for a decoding error, otherwise
  \<open>req.Enabled\<close>.  The result is the server afterwards and the response written.\<close>

definition Toggle ::
  "('s, 'r) methods \<Rightarrow> ('s, 'r) Server \<Rightarrow> gostring \<Rightarrow> bool option
     \<Rightarrow> ('s, 'r) Server \<times> http_response" where
  "Toggle m srv pluginName body =
     (case body of
        None \<Rightarrow> (srv, HttpError 400 (str ''Invalid request body'') None)
      | Some req_Enabled \<Rightarrow>
     (case storage srv of
        None \<Rightarrow> (srv, HttpError 500 (str ''Storage not available'') None)
      | Some st \<Rightarrow>
     (case Toggle_config m st pluginName req_Enabled of
        Inl err \<Rightarrow> (srv, HttpError 500 (str ''Failed to get plugin config: '') (Some err))
      | Inr pluginConfig \<Rightarrow>
     (case SetPluginConfig m st pluginName pluginConfig of
        (st', Some err) \<Rightarrow>
          (srv\<lparr>storage := Some st'\<rparr>,
           HttpError 500 (str ''Failed to save plugin config: '') (Some err))
      | (st', None) \<Rightarrow>
     (case pluginRegistry srv of
        Some reg \<Rightarrow>
          (case (if req_Enabled then EnablePlugin m st' reg pluginName
                 else DisablePlugin m st' reg pluginName) of
             (reg', Some err) \<Rightarrow>
               (srv\<lparr>storage := Some st', pluginRegistry := Some reg'\<rparr>,
                HttpError 500 (str ''Failed to toggle plugin: '') (Some err))
           | (reg', None) \<Rightarrow>
               (srv\<lparr>storage := Some st', pluginRegistry := Some reg'\<rparr>,
                WriteJSON 200 \<lparr>success = True, plugin = pluginName, enabled = req_Enabled,
                               restart_required = False\<rparr>))
      | None \<Rightarrow>
          (srv\<lparr>storage := Some st'\<rparr>,
           WriteJSON 200 \<lparr>success = True, plugin = pluginName, enabled = req_Enabled,
                          restart_required = True\<rparr>))))))"


text \<open>The law of a store that keeps what it accepted: a lookup after a successful
  \<open>SetPluginConfig\<close> of the same name returns the config just written.\<close>

definition keeps_written :: "('s, 'r) methods \<Rightarrow> bool" where
  "keeps_written m =
     (\<forall>st n c st'. SetPluginConfig m st n c = (st', None) \<longrightarrow> GetPluginConfig m st' n = Inr c)"

section \<open>internal/plugins/led: the LED unit (led.go)\<close>

datatype LEDStatus = LEDStatusEnabled | LEDStatusDisabled

record LEDInfo =
  led_Name :: gostring
  led_Path :: gostring
  led_Brightness :: int

record LEDState =
  Status :: LEDStatus
  TotalLEDs :: int
  EnabledCount :: int
  DisabledCount :: int
  LastUpdate :: nat

record Settings =
  AutoDisableOnStartup :: bool

text \<open>\<open>LEDPlugin\<close> embeds \<open>*plugins.BasePlugin\<close>; \<open>state\<close>, \<open>settings\<close> and \<open>leds\<close> are its
  runtime state.\<close>

record 's LEDPlugin =
  base :: "'s BasePlugin"
  state :: LEDState
  settings :: Settings
  leds :: "LEDInfo list"

definition LEDPlugin_IsEnabled :: "('s, 'r) methods \<Rightarrow> 's LEDPlugin \<Rightarrow> bool" where
  "LEDPlugin_IsEnabled m p =
     (case deps (base p) of
        None \<Rightarrow> False
      | Some d \<Rightarrow>
          (case Storage d of
             None \<Rightarrow> False
           | Some st \<Rightarrow>
               (case IsPluginEnabled m st (name (base p)) of
                  (is_enabled, Some err) \<Rightarrow> False
                | (is_enabled, None) \<Rightarrow> is_enabled)))"

section \<open>The Registry (spec section 4.2)\<close>

text \<open>\<open>Route\<close> of plugin.go; the handler is a reference.\<close>

record Route =
  Method :: gostring
  Path :: gostring
  Handler :: ref
  RequireAuth :: bool

text \<open>Modelled from the spec: the Registry behind \<open>h.server.pluginRegistry\<close>
  (\<open>plugins.NewRegistry\<close>, \<open>EnablePlugin\<close>, \<open>DisablePlugin\<close>) is not among the given files.
  What follows is section 3's data model: the lifecycle states, a unit seen through the
  Unit Contract (what each hook does when called), and the registry entry.\<close>

datatype lifecycle = Registered | Initialized | Running | Stopped | Failed

datatype outcome = ReturnsNil | ReturnsError gostring | Panics gostring

record Unit =
  unit_Name :: gostring
  Init :: outcome
  Start :: outcome
  Stop :: outcome
  Routes :: "Route list"

record Entry =
  entry_unit :: Unit
  entry_state :: lifecycle
  last_error :: "error option"
  mounted_routes :: "Route list"

record Registry =
  entries :: "Entry list"
  route_table :: "gostring \<times> gostring \<rightharpoonup> ref"

text \<open>Modelled from the spec: a computation of the host process either returns or is
  brought down by a fault that nothing recovered.  A hook call that panics is such a
  fault; \<open>recover\<close> is the Registry boundary of section 4.2, which turns the fault into the
  captured error (\<open>RecoveredFault\<close>, section 7).\<close>

datatype 'a host = Returned 'a | Crashed gostring

definition call_hook :: "outcome \<Rightarrow> error option host" where
  "call_hook h =
     (case h of
        ReturnsNil \<Rightarrow> Returned None
      | ReturnsError e \<Rightarrow> Returned (Some (ActivationError e))
      | Panics f \<Rightarrow> Crashed f)"

definition recover :: "error option host \<Rightarrow> error option host" where
  "recover c = (case c of Returned r \<Rightarrow> Returned r | Crashed f \<Rightarrow> Returned (Some (RecoveredFault f)))"

definition and_then :: "'a host \<Rightarrow> ('a \<Rightarrow> 'b host) \<Rightarrow> 'b host" where
  "and_then c k = (case c of Returned r \<Rightarrow> k r | Crashed f \<Rightarrow> Crashed f)"

definition find_entry :: "Registry \<Rightarrow> gostring \<Rightarrow> Entry option" where
  "find_entry reg n = find (\<lambda>e. unit_Name (entry_unit e) = n) (entries reg)"

definition update_entry :: "Registry \<Rightarrow> gostring \<Rightarrow> (Entry \<Rightarrow> Entry) \<Rightarrow> Registry" where
  "update_entry reg n f =
     reg\<lparr>entries := map (\<lambda>e. if unit_Name (entry_unit e) = n then f e else e) (entries reg)\<rparr>"

text \<open>Modelled from the spec: the Route Table is keyed by (method, path); publishing adds
  a unit's routes, unpublishing removes them, and a key already present is a collision.\<close>

definition route_key :: "Route \<Rightarrow> gostring \<times> gostring" where
  "route_key r = (Method r, Path r)"

definition collides :: "(gostring \<times> gostring \<rightharpoonup> ref) \<Rightarrow> Route list \<Rightarrow> bool" where
  "collides tbl rs = list_ex (\<lambda>r. tbl (route_key r) \<noteq> None) rs"

definition publish :: "(gostring \<times> gostring \<rightharpoonup> ref) \<Rightarrow> Route list \<Rightarrow> (gostring \<times> gostring \<rightharpoonup> ref)" where
  "publish tbl rs = fold (\<lambda>r t. t(route_key r \<mapsto> Handler r)) rs tbl"

definition unpublish :: "(gostring \<times> gostring \<rightharpoonup> ref) \<Rightarrow> Route list \<Rightarrow> (gostring \<times> gostring \<rightharpoonup> ref)" where
  "unpublish tbl rs = fold (\<lambda>r t. t(route_key r := None)) rs tbl"

text \<open>Modelled from the spec: ``any failure at any step triggers a best-effort \<open>Stop\<close> of
  the partially-started unit, transitions it to \<open>Failed\<close>, and guarantees none of its
  routes are ever published''; a fault of that \<open>Stop\<close> is recovered as well.\<close>

definition fail_activation :: "Registry \<Rightarrow> Entry \<Rightarrow> error \<Rightarrow> (Registry \<times> error option) host" where
  "fail_activation reg e err =
     and_then (recover (call_hook (Stop (entry_unit e))))
       (\<lambda>_. Returned
          (update_entry reg (unit_Name (entry_unit e))
             (\<lambda>x. x\<lparr>entry_state := Failed, last_error := Some err, mounted_routes := []\<rparr>),
           Some err))"

text \<open>Modelled from the spec: \<open>Activate(name)\<close> ``runs \<open>Init\<close>, then on success \<open>Start\<close>,
  then on success collects \<open>Routes()\<close> and publishes them into the Route Table''; a
  route-key collision fails the activating unit and leaves the table untouched.  The spec
  does not say what \<open>Activate\<close> does for a name that is not registered or a unit that is
  already \<open>Running\<close>: here the first is an error and the second changes nothing.\<close>

definition Activate :: "Registry \<Rightarrow> gostring \<Rightarrow> (Registry \<times> error option) host" where
  "Activate reg n =
     (case find_entry reg n of
        None \<Rightarrow> Returned (reg, Some (ActivationError (str ''unit not registered'')))
      | Some e \<Rightarrow>
          if entry_state e = Running then Returned (reg, None)
          else
            and_then (recover (call_hook (Init (entry_unit e))))
              (\<lambda>r. case r of
                 Some err \<Rightarrow> fail_activation reg e err
               | None \<Rightarrow>
                   and_then (recover (call_hook (Start (entry_unit e))))
                     (\<lambda>r. case r of
                        Some err \<Rightarrow> fail_activation reg e err
                      | None \<Rightarrow>
                          if collides (route_table reg) (Routes (entry_unit e)) then
                            fail_activation reg e (ActivationError (str ''route collision''))
                          else
                            Returned
                              ((update_entry reg n
                                  (\<lambda>x. x\<lparr>entry_state := Running, last_error := None,
                                          mounted_routes := Routes (entry_unit e)\<rparr>))
                                 \<lparr>route_table := publish (route_table reg) (Routes (entry_unit e))\<rparr>,
                               None))))"

text \<open>Modelled from the spec: \<open>Deactivate(name)\<close> ``unpublishes the unit's routes first,
  then calls \<open>Stop\<close>, then transitions to \<open>Stopped\<close>''; \<open>Stop\<close> faults never block the
  transition.\<close>

definition Deactivate :: "Registry \<Rightarrow> gostring \<Rightarrow> (Registry \<times> error option) host" where
  "Deactivate reg n =
     (case find_entry reg n of
        None \<Rightarrow> Returned (reg, Some (ActivationError (str ''unit not registered'')))
      | Some e \<Rightarrow>
          and_then (recover (call_hook (Stop (entry_unit e))))
            (\<lambda>_. Returned
               (update_entry
                  (reg\<lparr>route_table := unpublish (route_table reg) (mounted_routes e)\<rparr>) n
                  (\<lambda>x. x\<lparr>entry_state := Stopped, mounted_routes := []\<rparr>),
                None)))"

text \<open>Modelled from the spec: \<open>RegisterAll\<close> ``inserts entries in \<open>Registered\<close> state, no
  side effects''.\<close>

definition RegisterAll :: "Unit list \<Rightarrow> Registry" where
  "RegisterAll us =
     \<lparr>entries = map (\<lambda>u. \<lparr>entry_unit = u, entry_state = Registered, last_error = None,
                             mounted_routes = []\<rparr>) us,
      route_table = Map.empty\<rparr>"

section \<open>Concrete objects used to run the definitions\<close>


definition world0 :: world where
  "world0 = \<lparr>printed = (\<lambda>_. []), events = (\<lambda>_. [])\<rparr>"

definition demo_config :: Config where
  "demo_config =
     \<lparr>enabledPlugins = [str ''demo''],
      pluginSettings = [str ''demo'' \<mapsto> [str ''MESSAGE'' \<mapsto> str ''hi''],
         str ''fans'' \<mapsto> [str ''MESSAGE'' \<mapsto> str ''other'']]\<rparr>"

definition demo_deps :: "unit PluginDependencies" where
  "demo_deps = \<lparr>PodmanClient = None, Config = Some demo_config, EventStore = Some 1,
                 Logger = Some 0, Storage = None\<rparr>"

definition demo_plugin :: "unit BasePlugin" where
  "demo_plugin =
     SetDependencies (NewBasePlugin (str ''demo'') (str ''Simple demonstration plugin'') (str ''1.0.0''))
       demo_deps"


text \<open>A store kept in memory, one whose writes fail, and one whose flag lookup fails; the
  registry's methods are those of the Registry above.\<close>

definition registry_EnablePlugin :: "'s \<Rightarrow> Registry \<Rightarrow> gostring \<Rightarrow> Registry \<times> error option" where
  "registry_EnablePlugin st reg n =
     (case Activate reg n of Returned r \<Rightarrow> r | Crashed f \<Rightarrow> (reg, Some (Err f)))"

definition registry_DisablePlugin :: "'s \<Rightarrow> Registry \<Rightarrow> gostring \<Rightarrow> Registry \<times> error option" where
  "registry_DisablePlugin st reg n =
     (case Deactivate reg n of Returned r \<Rightarrow> r | Crashed f \<Rightarrow> (reg, Some (Err f)))"

definition memory_store :: "(gostring \<rightharpoonup> PluginConfig, Registry) methods" where
  "memory_store =
     \<lparr>GetPluginConfig = (\<lambda>st n. case st n of None \<Rightarrow> Inl ErrPluginNotFound | Some c \<Rightarrow> Inr c),
      SetPluginConfig = (\<lambda>st n c. (st(n \<mapsto> c), None)),
      IsPluginEnabled = (\<lambda>st n. case st n of None \<Rightarrow> (False, None) | Some c \<Rightarrow> (Enabled c, None)),
      EnablePlugin = registry_EnablePlugin,
      DisablePlugin = registry_DisablePlugin\<rparr>"


definition unreadable_store :: "(gostring \<rightharpoonup> PluginConfig, Registry) methods" where
  "unreadable_store = memory_store\<lparr>IsPluginEnabled := (\<lambda>st n. (True, Some (Err (str ''closed''))))\<rparr>"

definition demo_unit :: Unit where
  "demo_unit =
     \<lparr>unit_Name = str ''demo'', Init = ReturnsNil, Start = ReturnsNil, Stop = ReturnsNil,
      Routes = [\<lparr>Method = str ''GET'', Path = str ''/api/plugins/demo/info'', Handler = 1,
                 RequireAuth = True\<rparr>]\<rparr>"

definition faulty_unit :: Unit where
  "faulty_unit =
     \<lparr>unit_Name = str ''led'', Init = ReturnsNil, Start = Panics (str ''nil map''), Stop = ReturnsNil,
      Routes = [\<lparr>Method = str ''GET'', Path = str ''/api/plugins/led/status'', Handler = 2,
                 RequireAuth = True\<rparr>]\<rparr>"

definition demo_registry :: Registry where
  "demo_registry = RegisterAll [demo_unit, faulty_unit]"

definition led_plugin :: "(gostring \<rightharpoonup> PluginConfig) LEDPlugin" where
  "led_plugin =
     \<lparr>base = SetDependencies (NewBasePlugin (str ''led'') (str ''LED control and management'') (str ''1.0.0''))
               \<lparr>PodmanClient = None, Config = None, EventStore = None, Logger = None,
                Storage = Some [str ''led'' \<mapsto> \<lparr>Enabled = True, Name = str ''led''\<rparr>]\<rparr>,
      state = \<lparr>Status = LEDStatusEnabled, TotalLEDs = 0, EnabledCount = 0, DisabledCount = 0,
               LastUpdate = 0\<rparr>,
      settings = \<lparr>AutoDisableOnStartup = False\<rparr>,
      leds = []\<rparr>"


definition static_server :: "(gostring \<rightharpoonup> PluginConfig, Registry) Server" where
  "static_server = \<lparr>storage = Some Map.empty, pluginRegistry = None\<rparr>"

definition led_entry :: Entry where
  "led_entry = \<lparr>entry_unit = faulty_unit, entry_state = Registered, last_error = None,
                 mounted_routes = []\<rparr>"


text \<open>Tables of package \<open>unicode\<close> restricted to ASCII (enough for the ASCII inputs the
  definitions are run on), and the entries of a parsed file.\<close>

definition ascii :: unicode where
  "ascii = \<lparr>unicode_ToLower = (\<lambda>r. if 65 \<le> r \<and> r \<le> 90 then r + 32 else r),
            IsLetter = (\<lambda>r. (65 \<le> r \<and> r \<le> 90) \<or> (97 \<le> r \<and> r \<le> 122)),
            IsDigit = (\<lambda>r. 48 \<le> r \<and> r \<le> 57)\<rparr>"

definition demo_values :: "(gostring \<times> gostring) list" where
  "demo_values =
     [(str ''PODMANVIEW_PLUGINS_ENABLED'', str ''demo, led''),
      (str ''PLUGIN_DEMO_MESSAGE'', str ''hi''),
      (str ''PLUGIN_FANS_PWM_PATH'', str ''/sys/class/hwmon''),
      (str ''PLUGIN_X'', str ''no key''),
      (str ''PLUGIN__Y'', str ''no name''),
      (str ''PLUGIN_Z_'', str ''empty key'')]"

section \<open>Properties of the capability shim\<close>

lemmas run_defs = demo_plugin_def demo_deps_def demo_config_def SetDependencies_def
  NewBasePlugin_def world0_def

text \<open>C6.  \<open>GetPluginSettingOrDefault(k, d)\<close> returns the stored value when the dependency
  bundle and the configuration accessor are present and the setting \<open>k\<close> is in the unit's
  own namespace, and the default \<open>d\<close> in every other case: the setting is missing, the
  unit has no namespace, the configuration accessor is nil, or the dependency bundle is nil.\<close>

theorem GetPluginSettingOrDefault_value_or_default:
  "(deps p = Some d \<and> Config d = Some c \<and> pluginSettings c (name p) = Some m \<and> m k = Some v
      \<longrightarrow> GetPluginSettingOrDefault p k dflt = v) \<and>
   (deps p = Some d \<and> Config d = Some c \<and> pluginSettings c (name p) = Some m \<and> m k = None
      \<longrightarrow> GetPluginSettingOrDefault p k dflt = dflt) \<and>
   (deps p = Some d \<and> Config d = Some c \<and> pluginSettings c (name p) = None
      \<longrightarrow> GetPluginSettingOrDefault p k dflt = dflt) \<and>
   (deps p = Some d \<and> Config d = None \<longrightarrow> GetPluginSettingOrDefault p k dflt = dflt) \<and>
   (deps p = None \<longrightarrow> GetPluginSettingOrDefault p k dflt = dflt)"
  by (simp add: GetPluginSettingOrDefault_def GetPluginSetting_def Config_GetPluginSetting_def
      map_index_def)

theorem GetPluginSettingOrDefault_witness:
  "GetPluginSettingOrDefault demo_plugin (str ''MESSAGE'') (str ''Hello'') = str ''hi'' \<and>
   GetPluginSettingOrDefault demo_plugin (str ''OTHER'') (str ''Hello'') = str ''Hello'' \<and>
   GetPluginSettingOrDefault (demo_plugin\<lparr>name := str ''led''\<rparr>) (str ''MESSAGE'') (str ''Hello'') = str ''Hello'' \<and>
   GetPluginSettingOrDefault (SetDependencies demo_plugin (demo_deps\<lparr>Config := None\<rparr>))
     (str ''MESSAGE'') (str ''Hello'') = str ''Hello'' \<and>
   GetPluginSettingOrDefault (NewBasePlugin (str ''demo'') [] [] :: unit BasePlugin)
     (str ''MESSAGE'') (str ''Hello'') = str ''Hello''"
proof -
  let ?m = "[str ''MESSAGE'' \<mapsto> str ''hi'']"
  have s: "str ''MESSAGE'' \<noteq> str ''OTHER''" "str ''fans'' \<noteq> str ''demo''" "str ''led'' \<noteq> str ''demo''"
    "str ''led'' \<noteq> str ''fans''"
    by (simp_all add: str_def)
  have 1: "GetPluginSettingOrDefault demo_plugin (str ''MESSAGE'') (str ''Hello'') = str ''hi''"
    using GetPluginSettingOrDefault_value_or_default
      [of demo_plugin demo_deps demo_config ?m "str ''MESSAGE''" "str ''hi''" "str ''Hello''"] s
    by (simp add: run_defs)
  have 2: "GetPluginSettingOrDefault demo_plugin (str ''OTHER'') (str ''Hello'') = str ''Hello''"
    using GetPluginSettingOrDefault_value_or_default
      [of demo_plugin demo_deps demo_config ?m "str ''OTHER''" "str ''hi''" "str ''Hello''"] s
    by (simp add: run_defs)
  have 3: "GetPluginSettingOrDefault (demo_plugin\<lparr>name := str ''led''\<rparr>) (str ''MESSAGE'') (str ''Hello'') = str ''Hello''"
    using GetPluginSettingOrDefault_value_or_default
      [of "demo_plugin\<lparr>name := str ''led''\<rparr>" demo_deps demo_config ?m "str ''MESSAGE''" "str ''hi''" "str ''Hello''"] s
    by (simp add: run_defs)
  have 4: "GetPluginSettingOrDefault (SetDependencies demo_plugin (demo_deps\<lparr>Config := None\<rparr>))
     (str ''MESSAGE'') (str ''Hello'') = str ''Hello''"
    using GetPluginSettingOrDefault_value_or_default
      [of "SetDependencies demo_plugin (demo_deps\<lparr>Config := None\<rparr>)" "demo_deps\<lparr>Config := None\<rparr>"
          demo_config ?m "str ''MESSAGE''" "str ''hi''" "str ''Hello''"]
    by (simp add: run_defs)
  have 5: "GetPluginSettingOrDefault (NewBasePlugin (str ''demo'') [] [] :: unit BasePlugin)
     (str ''MESSAGE'') (str ''Hello'') = str ''Hello''"
    using GetPluginSettingOrDefault_value_or_default
      [of "NewBasePlugin (str ''demo'') [] [] :: unit BasePlugin" demo_deps demo_config ?m
          "str ''MESSAGE''" "str ''hi''" "str ''Hello''"]
    by (simp add: NewBasePlugin_def)
  from 1 2 3 4 5 show ?thesis by blast
qed

text \<open>The call \<open>LogInfo\<close> and \<open>LogError\<close> make.  With a logger set, the logger's \<open>Printf\<close>
  receives, as its format, the caller's format string with the unit's name in square
  brackets in front (\<open>LogError\<close>: with the marker \<open>ERROR:\<close> after the name), and the caller's
  arguments unchanged; without a logger nothing is handed over.  This is a statement about
  the format string, not yet about the text written.\<close>

lemma LogInfo_LogError_prefix:
  "(logger p = Some lg \<longrightarrow>
      printed (LogInfo p format v w) lg = printed w lg @ [(str ''['' @ name p @ str ''] '' @ format, v)] \<and>
      printed (LogError p format v w) lg =
        printed w lg @ [(str ''['' @ name p @ str ''] ERROR: '' @ format, v)]) \<and>
   (logger p = None \<longrightarrow> LogInfo p format v w = w \<and> LogError p format v w = w)"
  by (auto simp: LogInfo_def LogError_def Printf_def split: option.splits)

lemma LogInfo_LogError_prefix_run:
  "printed (LogInfo demo_plugin (str ''Config message: %s'') [GoString (str ''hi'')] world0) 0 =
     [(str ''[demo] Config message: %s'', [GoString (str ''hi'')])] \<and>
   printed (LogError demo_plugin (str ''failed: %d'') [GoInt 3] world0) 0 =
     [(str ''[demo] ERROR: failed: %d'', [GoInt 3])] \<and>
   LogInfo (NewBasePlugin (str ''demo'') [] [] :: unit BasePlugin) (str ''x'') [] world0 = world0 \<and>
   LogError (NewBasePlugin (str ''demo'') [] [] :: unit BasePlugin) (str ''x'') [] world0 = world0"
proof -
  have a: "logger demo_plugin = Some 0" by (simp add: run_defs)
  have b: "logger (NewBasePlugin (str ''demo'') [] [] :: unit BasePlugin) = None"
    by (simp add: NewBasePlugin_def)
  have n: "name demo_plugin = str ''demo''" by (simp add: run_defs)
  have p0: "printed world0 0 = []" by (simp add: world0_def)
  have c: "str ''['' @ str ''demo'' @ str ''] '' @ str ''Config message: %s'' = str ''[demo] Config message: %s''"
    "str ''['' @ str ''demo'' @ str ''] ERROR: '' @ str ''failed: %d'' = str ''[demo] ERROR: failed: %d''"
    by (simp_all add: str_def)
  have 1: "printed (LogInfo demo_plugin (str ''Config message: %s'') [GoString (str ''hi'')] world0) 0 =
     [(str ''[demo] Config message: %s'', [GoString (str ''hi'')])]"
    using LogInfo_LogError_prefix [of demo_plugin 0 "str ''Config message: %s''" "[GoString (str ''hi'')]" world0]
    by (simp add: a n p0 c)
  have 2: "printed (LogError demo_plugin (str ''failed: %d'') [GoInt 3] world0) 0 =
     [(str ''[demo] ERROR: failed: %d'', [GoInt 3])]"
    using LogInfo_LogError_prefix [of demo_plugin 0 "str ''failed: %d''" "[GoInt 3]" world0]
    by (simp add: a n p0 c)
  have 3: "LogInfo (NewBasePlugin (str ''demo'') [] [] :: unit BasePlugin) (str ''x'') [] world0 = world0 \<and>
   LogError (NewBasePlugin (str ''demo'') [] [] :: unit BasePlugin) (str ''x'') [] world0 = world0"
    using LogInfo_LogError_prefix [of "NewBasePlugin (str ''demo'') [] [] :: unit BasePlugin" 0 "str ''x''" "[]" world0]
    by (simp add: b)
  from 1 2 3 show ?thesis by blast
qed

text \<open>The text written, for a unit name without a percent sign: the message starts with
  the name in square brackets (\<open>LogError\<close>: followed by \<open>ERROR:\<close>), and what follows is the
  caller's format rendered with the caller's arguments.\<close>

lemma Sprintf_literal_prefix:
  "rune CHR ''%'' \<notin> set pre \<Longrightarrow> Sprintf verbs (pre @ format) a = pre @ Sprintf verbs format a"
  by (induction pre) (simp_all add: Sprintf_def)

lemma LogInfo_LogError_written:
  assumes "rune CHR ''%'' \<notin> set (name p)" and "logger p = Some lg"
  shows "written verbs (LogInfo p format v w) lg =
           written verbs w lg @ [str ''['' @ name p @ str ''] '' @ Sprintf verbs format v]"
    and "written verbs (LogError p format v w) lg =
           written verbs w lg @ [str ''['' @ name p @ str ''] ERROR: '' @ Sprintf verbs format v]"
proof -
  have a: "rune CHR ''%'' \<notin> set (str ''['' @ name p @ str ''] '')"
    "rune CHR ''%'' \<notin> set (str ''['' @ name p @ str ''] ERROR: '')"
    using assms(1) by (auto simp: str_def rune_def)
  have i: "Sprintf verbs ((str ''['' @ name p @ str ''] '') @ format) v =
      (str ''['' @ name p @ str ''] '') @ Sprintf verbs format v"
    using a(1) by (rule Sprintf_literal_prefix)
  have e: "Sprintf verbs ((str ''['' @ name p @ str ''] ERROR: '') @ format) v =
      (str ''['' @ name p @ str ''] ERROR: '') @ Sprintf verbs format v"
    using a(2) by (rule Sprintf_literal_prefix)
  show "written verbs (LogInfo p format v w) lg =
           written verbs w lg @ [str ''['' @ name p @ str ''] '' @ Sprintf verbs format v]"
    using assms(2) i by (simp add: written_def LogInfo_def Printf_def)
  show "written verbs (LogError p format v w) lg =
           written verbs w lg @ [str ''['' @ name p @ str ''] ERROR: '' @ Sprintf verbs format v]"
    using assms(2) e by (simp add: written_def LogError_def Printf_def)
qed


text \<open>C4, as stated, fails: with the dependency bundle and the event store present but no
  logger set, \<open>AddEvent\<close> with an event type containing a space forwards nothing and logs
  nothing.\<close>

theorem AddEvent_counterexample:
  "\<not> validEventTypeRegex_MatchString (str ''bad type'') \<and>
   EventStore (demo_deps\<lparr>Logger := None\<rparr>) = Some 1 \<and>
   AddEvent (SetDependencies demo_plugin (demo_deps\<lparr>Logger := None\<rparr>)) (str ''bad type'') (str ''m'') world0
     = world0"
  by (simp add: AddEvent_def run_defs validEventTypeRegex_MatchString_def event_type_class_def
      str_def rune_def)

text \<open>C4, amended.  An event type that does not match the pattern is never forwarded to the
  event store; the warning is logged when the dependency bundle, the event store and a
  logger are all present, and nothing at all happens when one of them is missing.  An
  event type that matches is forwarded (as \<open>plugin.<name>.<type>\<close>) when the dependency
  bundle and the event store are present, and nothing is logged.  An event type with a
  space or a \<open>/\<close> does not match; matching means: not empty, and every character is an
  ASCII letter, a digit, an underscore or a dot.\<close>

theorem AddEvent_validated:
  "(\<not> validEventTypeRegex_MatchString t \<longrightarrow> events (AddEvent p t msg w) = events w) \<and>
   (\<not> validEventTypeRegex_MatchString t \<and> deps p = Some d \<and> EventStore d = Some es \<and> logger p = Some lg \<longrightarrow>
      printed (AddEvent p t msg w) lg =
        printed w lg @ [(str ''[%s] WARNING: Invalid event type rejected: %q'', [GoString (name p), GoString t])]) \<and>
   (\<not> validEventTypeRegex_MatchString t \<and>
      (deps p = None \<or> (deps p = Some d \<and> EventStore d = None) \<or> logger p = None) \<longrightarrow>
      AddEvent p t msg w = w) \<and>
   (validEventTypeRegex_MatchString t \<and> deps p = Some d \<and> EventStore d = Some es \<longrightarrow>
      events (AddEvent p t msg w) es =
        events w es @ [\<lparr>ev_type = str ''plugin.'' @ name p @ str ''.'' @ t, ev_username = str ''plugin'',
                         ev_ip = [], ev_success = True, ev_details = msg\<rparr>] \<and>
      printed (AddEvent p t msg w) = printed w) \<and>
   (rune CHR '' '' \<in> set t \<or> rune CHR ''/'' \<in> set t \<longrightarrow> \<not> validEventTypeRegex_MatchString t) \<and>
   (validEventTypeRegex_MatchString t \<longleftrightarrow>
      t \<noteq> [] \<and> (\<forall>c \<in> set t. (97 \<le> c \<and> c \<le> 122) \<or> (65 \<le> c \<and> c \<le> 90) \<or> (48 \<le> c \<and> c \<le> 57) \<or> c = 95 \<or> c = 46))"
proof -
  have cls: "\<not> event_type_class (rune CHR '' '')" "\<not> event_type_class (rune CHR ''/'')"
    by (simp_all add: event_type_class_def rune_def)
  have 5: "rune CHR '' '' \<in> set t \<or> rune CHR ''/'' \<in> set t \<longrightarrow> \<not> validEventTypeRegex_MatchString t"
    using cls by (auto simp: validEventTypeRegex_MatchString_def list_all_iff)
  have 6: "validEventTypeRegex_MatchString t \<longleftrightarrow>
      t \<noteq> [] \<and> (\<forall>c \<in> set t. (97 \<le> c \<and> c \<le> 122) \<or> (65 \<le> c \<and> c \<le> 90) \<or> (48 \<le> c \<and> c \<le> 57) \<or> c = 95 \<or> c = 46)"
    by (simp add: validEventTypeRegex_MatchString_def list_all_iff event_type_class_def rune_def)
  have 1234: "(\<not> validEventTypeRegex_MatchString t \<longrightarrow> events (AddEvent p t msg w) = events w) \<and>
   (\<not> validEventTypeRegex_MatchString t \<and> deps p = Some d \<and> EventStore d = Some es \<and> logger p = Some lg \<longrightarrow>
      printed (AddEvent p t msg w) lg =
        printed w lg @ [(str ''[%s] WARNING: Invalid event type rejected: %q'', [GoString (name p), GoString t])]) \<and>
   (\<not> validEventTypeRegex_MatchString t \<and>
      (deps p = None \<or> (deps p = Some d \<and> EventStore d = None) \<or> logger p = None) \<longrightarrow>
      AddEvent p t msg w = w) \<and>
   (validEventTypeRegex_MatchString t \<and> deps p = Some d \<and> EventStore d = Some es \<longrightarrow>
      events (AddEvent p t msg w) es =
        events w es @ [\<lparr>ev_type = str ''plugin.'' @ name p @ str ''.'' @ t, ev_username = str ''plugin'',
                         ev_ip = [], ev_success = True, ev_details = msg\<rparr>] \<and>
      printed (AddEvent p t msg w) = printed w)"
    by (auto simp: AddEvent_def Printf_def EventStore_Add_def split: option.splits)
  from 1234 5 6 show ?thesis by blast
qed

theorem AddEvent_validated_witness:
  "\<not> validEventTypeRegex_MatchString (str ''bad/type'') \<and>
   events (AddEvent demo_plugin (str ''bad/type'') (str ''m'') world0) = events world0 \<and>
   printed (AddEvent demo_plugin (str ''bad/type'') (str ''m'') world0) 0 =
     [(str ''[%s] WARNING: Invalid event type rejected: %q'', [GoString (str ''demo''), GoString (str ''bad/type'')])] \<and>
   AddEvent (NewBasePlugin (str ''demo'') [] [] :: unit BasePlugin) (str ''bad/type'') (str ''m'') world0 = world0 \<and>
   validEventTypeRegex_MatchString (str ''counter_incremented'') \<and>
   events (AddEvent demo_plugin (str ''counter_incremented'') (str ''Counter incremented'') world0) 1 =
     [\<lparr>ev_type = str ''plugin.'' @ str ''demo'' @ str ''.'' @ str ''counter_incremented'',
       ev_username = str ''plugin'', ev_ip = [], ev_success = True,
       ev_details = str ''Counter incremented''\<rparr>]"
proof -
  have d: "deps demo_plugin = Some demo_deps" "EventStore demo_deps = Some 1" "logger demo_plugin = Some 0"
    "name demo_plugin = str ''demo''" "printed world0 0 = []" "events world0 1 = []"
    by (simp_all add: run_defs)
  have n: "deps (NewBasePlugin (str ''demo'') [] [] :: unit BasePlugin) = None"
    by (simp add: NewBasePlugin_def)
  have sl: "rune CHR ''/'' \<in> set (str ''bad/type'')" by (simp add: str_def rune_def)
  have ok: "validEventTypeRegex_MatchString (str ''counter_incremented'')"
    by (simp add: validEventTypeRegex_MatchString_def event_type_class_def str_def rune_def)
  have bad: "\<not> validEventTypeRegex_MatchString (str ''bad/type'')"
    using AddEvent_validated [of "str ''bad/type''" demo_plugin "str ''m''" world0 demo_deps 1 0] sl
    by blast
  have 1: "events (AddEvent demo_plugin (str ''bad/type'') (str ''m'') world0) = events world0 \<and>
   printed (AddEvent demo_plugin (str ''bad/type'') (str ''m'') world0) 0 =
     [(str ''[%s] WARNING: Invalid event type rejected: %q'', [GoString (str ''demo''), GoString (str ''bad/type'')])]"
    using AddEvent_validated [of "str ''bad/type''" demo_plugin "str ''m''" world0 demo_deps 1 0] bad d
    by simp
  have 2: "AddEvent (NewBasePlugin (str ''demo'') [] [] :: unit BasePlugin) (str ''bad/type'') (str ''m'') world0 = world0"
    using AddEvent_validated [of "str ''bad/type''" "NewBasePlugin (str ''demo'') [] [] :: unit BasePlugin"
        "str ''m''" world0 demo_deps 1 0] bad n
    by simp
  have 3: "events (AddEvent demo_plugin (str ''counter_incremented'') (str ''Counter incremented'') world0) 1 =
     [\<lparr>ev_type = str ''plugin.'' @ str ''demo'' @ str ''.'' @ str ''counter_incremented'',
       ev_username = str ''plugin'', ev_ip = [], ev_success = True,
       ev_details = str ''Counter incremented''\<rparr>]"
    using AddEvent_validated [of "str ''counter_incremented''" demo_plugin "str ''Counter incremented''"
        world0 demo_deps 1 0] ok d
    by simp
  from bad 1 2 ok 3 show ?thesis by blast
qed

section \<open>Properties of the LED unit\<close>

text \<open>C5.  \<open>IsEnabled()\<close> of the LED unit is the flag the store reports for the unit's name;
  it is false when the store's lookup returns an error, when the dependency bundle is nil
  and when the bundle has no store; and it does not depend on the unit's runtime state
  (\<open>state\<close>, \<open>settings\<close>, \<open>leds\<close>).\<close>

theorem LEDPlugin_IsEnabled_persisted_flag:
  "(deps (base p) = Some d \<and> Storage d = Some st \<and> IsPluginEnabled m st (name (base p)) = (flag, None)
      \<longrightarrow> LEDPlugin_IsEnabled m p = flag) \<and>
   (deps (base p) = Some d \<and> Storage d = Some st \<and> IsPluginEnabled m st (name (base p)) = (flag, Some err)
      \<longrightarrow> LEDPlugin_IsEnabled m p = False) \<and>
   (deps (base p) = None \<or> (deps (base p) = Some d \<and> Storage d = None)
      \<longrightarrow> LEDPlugin_IsEnabled m p = False) \<and>
   LEDPlugin_IsEnabled m (p\<lparr>state := s', settings := t', leds := l'\<rparr>) = LEDPlugin_IsEnabled m p"
  by (auto simp: LEDPlugin_IsEnabled_def split: option.splits)

theorem LEDPlugin_IsEnabled_witness:
  "LEDPlugin_IsEnabled memory_store led_plugin = True \<and>
   LEDPlugin_IsEnabled memory_store
     (led_plugin\<lparr>state := (state led_plugin)\<lparr>Status := LEDStatusDisabled\<rparr>,
                  settings := \<lparr>AutoDisableOnStartup = True\<rparr>, leds := []\<rparr>) = True \<and>
   LEDPlugin_IsEnabled unreadable_store led_plugin = False \<and>
   LEDPlugin_IsEnabled memory_store
     (led_plugin\<lparr>base := NewBasePlugin (str ''led'') [] []\<rparr>) = False"
proof -
  let ?st = "[str ''led'' \<mapsto> \<lparr>Enabled = True, Name = str ''led''\<rparr>]"
  let ?d = "\<lparr>PodmanClient = None, Config = None, EventStore = None, Logger = None, Storage = Some ?st\<rparr>"
  have d: "deps (base led_plugin) = Some ?d" "Storage ?d = Some ?st" "name (base led_plugin) = str ''led''"
    by (simp_all add: led_plugin_def SetDependencies_def NewBasePlugin_def)
  have m: "IsPluginEnabled memory_store ?st (str ''led'') = (True, None)"
    by (simp add: memory_store_def)
  have u: "IsPluginEnabled unreadable_store ?st (str ''led'') = (True, Some (Err (str ''closed'')))"
    by (simp add: unreadable_store_def memory_store_def)
  have n: "deps (base (led_plugin\<lparr>base := NewBasePlugin (str ''led'') [] []\<rparr>)) = None"
    by (simp add: NewBasePlugin_def)
  have 1: "LEDPlugin_IsEnabled memory_store led_plugin = True"
    using LEDPlugin_IsEnabled_persisted_flag [of led_plugin ?d ?st memory_store True] d m by simp
  have 2: "LEDPlugin_IsEnabled memory_store
     (led_plugin\<lparr>state := (state led_plugin)\<lparr>Status := LEDStatusDisabled\<rparr>,
                  settings := \<lparr>AutoDisableOnStartup = True\<rparr>, leds := []\<rparr>) = True"
    using LEDPlugin_IsEnabled_persisted_flag
      [where p = led_plugin and m = memory_store
         and s' = "(state led_plugin)\<lparr>Status := LEDStatusDisabled\<rparr>"
         and t' = "\<lparr>AutoDisableOnStartup = True\<rparr>" and l' = "[]"] 1
    by simp
  have 3: "LEDPlugin_IsEnabled unreadable_store led_plugin = False"
    using LEDPlugin_IsEnabled_persisted_flag [of led_plugin ?d ?st unreadable_store True "Err (str ''closed'')"] d u
    by simp
  have 4: "LEDPlugin_IsEnabled memory_store (led_plugin\<lparr>base := NewBasePlugin (str ''led'') [] []\<rparr>) = False"
    using LEDPlugin_IsEnabled_persisted_flag [of "led_plugin\<lparr>base := NewBasePlugin (str ''led'') [] []\<rparr>" ?d ?st memory_store] n
    by simp
  from 1 2 3 4 show ?thesis by blast
qed

section \<open>Properties of the Registry\<close>

lemma recover_call_hook:
  "recover (call_hook h) =
     Returned (case h of ReturnsNil \<Rightarrow> None | ReturnsError e \<Rightarrow> Some (ActivationError e)
               | Panics f \<Rightarrow> Some (RecoveredFault f))"
  by (cases h) (simp_all add: recover_def call_hook_def)

lemma fail_activation_Returned:
  "fail_activation reg e err =
     Returned (update_entry reg (unit_Name (entry_unit e))
                 (\<lambda>x. x\<lparr>entry_state := Failed, last_error := Some err, mounted_routes := []\<rparr>),
               Some err)"
  by (simp add: fail_activation_def recover_call_hook and_then_def)

lemma Activate_returns: "\<exists>r. Activate reg n = Returned r"
  by (auto simp: Activate_def recover_call_hook and_then_def fail_activation_Returned
      split: option.splits outcome.splits)

lemma Deactivate_returns: "\<exists>r. Deactivate reg n = Returned r"
  by (auto simp: Deactivate_def recover_call_hook and_then_def split: option.splits)

lemma find_map_same_name:
  assumes "\<And>x. unit_Name (entry_unit (f x)) = unit_Name (entry_unit x)"
  shows "find (\<lambda>e. unit_Name (entry_unit e) = n')
           (map (\<lambda>e. if unit_Name (entry_unit e) = n then f e else e) es) =
         map_option (\<lambda>e. if unit_Name (entry_unit e) = n then f e else e)
           (find (\<lambda>e. unit_Name (entry_unit e) = n') es)"
  using assms by (induction es) auto

lemma find_entry_update_entry:
  assumes "\<And>x. unit_Name (entry_unit (f x)) = unit_Name (entry_unit x)"
  shows "find_entry (update_entry reg n f) n' =
         map_option (\<lambda>e. if unit_Name (entry_unit e) = n then f e else e) (find_entry reg n')"
  using find_map_same_name [OF assms] by (simp add: find_entry_def update_entry_def)

lemma find_entry_name: "find_entry reg n = Some e \<Longrightarrow> unit_Name (entry_unit e) = n"
  by (auto simp: find_entry_def find_Some_iff)

text \<open>C1.  When a unit that is not running is activated and its \<open>Init\<close> panics, or its \<open>Init\<close>
  succeeds and its \<open>Start\<close> panics, \<open>Activate\<close> returns to its caller (the host is not
  brought down) with the recovered fault as its error; the unit's entry is \<open>Failed\<close> with
  that error recorded and no routes mounted, the route table is unchanged, the entry of
  every other name is unchanged, and \<open>Activate\<close> and \<open>Deactivate\<close> of every other name
  still return.\<close>

theorem Activate_recovers_fault:
  assumes "find_entry reg n = Some e" and "entry_state e \<noteq> Running"
    and "Init (entry_unit e) = Panics f \<or>
         (Init (entry_unit e) = ReturnsNil \<and> Start (entry_unit e) = Panics f)"
  shows "\<exists>reg'. Activate reg n = Returned (reg', Some (RecoveredFault f)) \<and>
           find_entry reg' n =
             Some (e\<lparr>entry_state := Failed, last_error := Some (RecoveredFault f), mounted_routes := []\<rparr>) \<and>
           route_table reg' = route_table reg \<and>
           (\<forall>n'. n' \<noteq> n \<longrightarrow>
              find_entry reg' n' = find_entry reg n' \<and>
              (\<exists>r. Activate reg' n' = Returned r) \<and> (\<exists>r. Deactivate reg' n' = Returned r))"
proof -
  let ?g = "\<lambda>x. x\<lparr>entry_state := Failed, last_error := Some (RecoveredFault f), mounted_routes := []\<rparr>"
  let ?reg' = "update_entry reg n ?g"
  have nm: "unit_Name (entry_unit e) = n" using assms(1) by (rule find_entry_name)
  have act: "Activate reg n = Returned (?reg', Some (RecoveredFault f))"
    using assms nm
    by (auto simp: Activate_def recover_call_hook and_then_def fail_activation_Returned)
  have fe: "find_entry ?reg' n' =
      map_option (\<lambda>x. if unit_Name (entry_unit x) = n then ?g x else x) (find_entry reg n')" for n'
    by (rule find_entry_update_entry) simp
  have self: "find_entry ?reg' n = Some (?g e)"
    using fe [of n] assms(1) nm by simp
  have others: "find_entry ?reg' n' = find_entry reg n'" if "n' \<noteq> n" for n'
  proof (cases "find_entry reg n'")
    case None
    then show ?thesis using fe [of n'] by simp
  next
    case (Some x)
    then have "unit_Name (entry_unit x) = n'" by (rule find_entry_name)
    with that Some show ?thesis using fe [of n'] by simp
  qed
  have tbl: "route_table ?reg' = route_table reg" by (simp add: update_entry_def)
  show ?thesis
    using act self others tbl Activate_returns Deactivate_returns by blast
qed

lemma find_led: "find_entry demo_registry (str ''led'') = Some led_entry"
  by (simp add: find_entry_def demo_registry_def RegisterAll_def demo_unit_def faulty_unit_def
      led_entry_def str_def)

theorem Activate_recovers_fault_witness:
  "\<exists>reg'. Activate demo_registry (str ''led'') = Returned (reg', Some (RecoveredFault (str ''nil map''))) \<and>
      find_entry reg' (str ''led'') =
        Some (led_entry\<lparr>entry_state := Failed, last_error := Some (RecoveredFault (str ''nil map'')),
                         mounted_routes := []\<rparr>) \<and>
      route_table reg' = route_table demo_registry \<and>
      find_entry reg' (str ''demo'') = find_entry demo_registry (str ''demo'') \<and>
      (\<exists>r. Activate reg' (str ''demo'') = Returned r) \<and>
      (\<exists>r. Deactivate reg' (str ''demo'') = Returned r)"
proof -
  have h2: "entry_state led_entry \<noteq> Running" by (simp add: led_entry_def)
  have h3: "Init (entry_unit led_entry) = Panics (str ''nil map'') \<or>
      (Init (entry_unit led_entry) = ReturnsNil \<and> Start (entry_unit led_entry) = Panics (str ''nil map''))"
    by (simp add: led_entry_def faulty_unit_def)
  have ne: "str ''demo'' \<noteq> str ''led''" by (simp add: str_def)
  from Activate_recovers_fault [OF find_led h2 h3] ne show ?thesis by blast
qed

section \<open>Properties of the Toggle handler\<close>


lemma keeps_written_memory_store: "keeps_written memory_store"
  by (simp add: keeps_written_def memory_store_def)












text \<open>C10.  \<open>Toggle\<close> does not require its name to denote a registered unit.  For every name
  whose lookup reports \<open>ErrPluginNotFound\<close>, the config handed to the store is the fresh
  \<open>{Enabled: requested, Name: name}\<close>; when the store accepts it, the server keeps the
  written store, a store that keeps what it accepted returns the fresh config for the
  name, and with no registry attached the response is the success object for that name.\<close>

theorem Toggle_unknown_name:
  "storage srv = Some st \<and> GetPluginConfig m st n = Inl ErrPluginNotFound \<longrightarrow>
     Toggle_config m st n en = Inr \<lparr>Enabled = en, Name = n\<rparr> \<and>
     (SetPluginConfig m st n \<lparr>Enabled = en, Name = n\<rparr> = (st', None) \<longrightarrow>
        storage (fst (Toggle m srv n (Some en))) = Some st' \<and>
        (keeps_written m \<longrightarrow> GetPluginConfig m st' n = Inr \<lparr>Enabled = en, Name = n\<rparr>) \<and>
        (pluginRegistry srv = None \<longrightarrow>
           Toggle m srv n (Some en) =
             (srv\<lparr>storage := Some st'\<rparr>,
              WriteJSON 200 \<lparr>success = True, plugin = n, enabled = en, restart_required = True\<rparr>)))"
  by (auto simp: Toggle_def Toggle_config_def keeps_written_def split: option.splits prod.splits)

theorem Toggle_unknown_name_witness:
  "Toggle_config memory_store Map.empty (str ''no such unit'') True =
     Inr \<lparr>Enabled = True, Name = str ''no such unit''\<rparr> \<and>
   storage (fst (Toggle memory_store static_server (str ''no such unit'') (Some True))) =
     Some [str ''no such unit'' \<mapsto> \<lparr>Enabled = True, Name = str ''no such unit''\<rparr>] \<and>
   GetPluginConfig memory_store [str ''no such unit'' \<mapsto> \<lparr>Enabled = True, Name = str ''no such unit''\<rparr>]
     (str ''no such unit'') = Inr \<lparr>Enabled = True, Name = str ''no such unit''\<rparr> \<and>
   Toggle memory_store static_server (str ''no such unit'') (Some True) =
     (static_server\<lparr>storage := Some [str ''no such unit'' \<mapsto> \<lparr>Enabled = True, Name = str ''no such unit''\<rparr>]\<rparr>,
      WriteJSON 200 \<lparr>success = True, plugin = str ''no such unit'', enabled = True, restart_required = True\<rparr>)"
proof -
  let ?n = "str ''no such unit''"
  let ?cfg = "\<lparr>Enabled = True, Name = ?n\<rparr>"
  have s: "storage static_server = Some Map.empty" "pluginRegistry static_server = None"
    by (simp_all add: static_server_def)
  have g: "GetPluginConfig memory_store Map.empty ?n = Inl ErrPluginNotFound"
    by (simp add: memory_store_def)
  have w: "SetPluginConfig memory_store Map.empty ?n ?cfg = ([?n \<mapsto> ?cfg], None)"
    by (simp add: memory_store_def)
  show ?thesis
    using Toggle_unknown_name
      [where m = memory_store and srv = static_server and n = ?n and en = True
         and st = Map.empty and st' = "[?n \<mapsto> ?cfg]"]
      s g w keeps_written_memory_store
    by blast
qed

section \<open>Properties of the configuration accessor\<close>

lemma Index_single_notin: "c \<notin> set s \<Longrightarrow> Index s [c] = -1"
  by (induction s) (auto simp: HasPrefix_def Let_def)


lemma Index_single_range: "Index s [c] = -1 \<or> (0 \<le> Index s [c] \<and> Index s [c] < int (length s))"
  by (induction s) (auto simp: HasPrefix_def Let_def)

















lemma demo_values_keys:
  "map (\<lambda>kv. plugin_setting_key ascii (fst kv)) demo_values =
     [None, Some (str ''demo'', str ''MESSAGE''), Some (str ''fans'', str ''PWM_PATH''), None, None, None]"
  by code_simp



end
